theory Spec2Isabelle
  imports Complex_Main "HOL-Library.AList"
begin

section \<open>FormCraft: the form rendering and validation engine (FormFactory)\<close>

text \<open>
  A shallow embedding of the component \<open>FormFactory\<close>: its data model
  (\<open>FormField\<close>, \<open>FormSchema\<close>), the component state held in React hooks
  (\<open>formData\<close>, \<open>errors\<close>), the handlers \<open>handleFieldChange\<close>,
  \<open>validateField\<close> and \<open>handleSubmit\<close>, the multi-select handler of
  \<open>renderField\<close>, the derived \<open>progress\<close> value and the timers of the
  session effect.
\<close>

subsection \<open>JavaScript values\<close>

text \<open>
  The values an answer can hold (the source types them \<open>any\<close>): \<open>undefined\<close>,
  \<open>null\<close>, booleans, numbers, strings and arrays of strings. Numbers are the
  integer-valued ones (\<open>NaN\<close>, the infinities and fractions are left out); on these
  \<open><\<close>, \<open>>\<close> and truthiness of an IEEE double agree with \<open>int\<close>. A string
  is a list of code units below 256, so that \<open>length\<close> is the source's
  \<open>.length\<close>.
\<close>

datatype jsval = Undefined | Null | Bool bool | Num int | Str string | Arr "string list"

text \<open>\<open>!value\<close> is \<open>\<not> truthy value\<close>.\<close>

fun truthy :: "jsval \<Rightarrow> bool" where
  "truthy Undefined = False"
| "truthy Null = False"
| "truthy (Bool b) = b"
| "truthy (Num n) = (n \<noteq> 0)"
| "truthy (Str s) = (s \<noteq> [])"
| "truthy (Arr xs) = True"

text \<open>
  \<open>String.prototype.trim\<close> on code units below 256: the white space and line
  terminators there are U+0009 to U+000D, U+0020 and U+00A0.
\<close>

definition is_space :: "char \<Rightarrow> bool" where
  "is_space c = (c \<in> {CHR 0x09, CHR 0x0A, CHR 0x0B, CHR 0x0C, CHR 0x0D, CHR 0x20, CHR 0xA0})"

definition trim :: "string \<Rightarrow> string" where
  "trim s = rev (dropWhile is_space (rev (dropWhile is_space s)))"

text \<open>
  Template literals print a number with \<open>Number.prototype.toString\<close>: for an
  integer, its decimal digits with a leading minus sign when negative.
\<close>

definition digit_char :: "nat \<Rightarrow> char" where
  "digit_char d = char_of (48 + d)"

fun digits :: "nat \<Rightarrow> string" where
  "digits n = (if n < 10 then [digit_char n] else digits (n div 10) @ [digit_char (n mod 10)])"

declare digits.simps [simp del]

definition toString :: "int \<Rightarrow> string" where
  "toString i = (if i < 0 then CHR ''-'' # digits (nat (- i)) else digits (nat i))"

subsection \<open>The schema\<close>

datatype field_type =
  Text | Email | Number | Tel | Date | Textarea | Select | Multiselect | Checkbox | Radio

record Validation =
  min_v :: "int option"
  max_v :: "int option"
  pattern :: "string option"
  minLength :: "int option"
  maxLength :: "int option"

record FormField =
  key :: string
  type_v :: field_type
  label :: string
  placeholder :: "string option"
  required :: bool
  validation :: "Validation option"
  options :: "(string \<times> string) list option"
  description :: "string option"

record Settings =
  allowAnonymous :: bool
  showProgress :: bool
  submitText :: string

record FormSchema =
  title :: string
  schema_description :: string
  fields_v :: "FormField list"
  settings :: Settings

subsection \<open>Regular expressions\<close>

text \<open>
  \<open>new RegExp(pattern)\<close> is the JavaScript runtime's, not the repository's: it is a
  parameter of the model. \<open>rx p = None\<close> when the constructor throws a
  \<open>SyntaxError\<close> on \<open>p\<close>; otherwise \<open>rx p = Some m\<close> and \<open>m s\<close> is
  \<open>regex.test(s)\<close>.
\<close>

type_synonym RegExp = "string \<Rightarrow> (string \<Rightarrow> bool) option"

datatype js_error = SyntaxError

text \<open>
  The behaviour of \<open>RegExp\<close> on three patterns, for evaluating examples: the empty
  pattern matches every string; the pattern of the code units \<open>^\<close>, backslash,
  \<open>d{5}$\<close> matches exactly the strings of five decimal digits; and \<open>(\<close> is
  rejected by the constructor. Patterns outside this table are not used.
\<close>

definition is_digit :: "char \<Rightarrow> bool" where
  "is_digit c = (48 \<le> (of_char c :: nat) \<and> (of_char c :: nat) \<le> 57)"

definition five_digits :: string where
  "five_digits = ''^'' @ [CHR 0x5C] @ ''d{5}$''"

definition sample_RegExp :: RegExp where
  "sample_RegExp p =
     (if p = [] then Some (\<lambda>s. True)
      else if p = five_digits then Some (\<lambda>s. length s = 5 \<and> list_all is_digit s)
      else None)"

subsection \<open>validateField\<close>

fun blank_string :: "jsval \<Rightarrow> bool" where
  "blank_string (Str s) = (trim s = [])"
| "blank_string _ = False"

definition msg_required :: "FormField \<Rightarrow> string" where
  "msg_required field = label field @ '' '' @ [CHR 0xE9] @ '' obrigat'' @ [CHR 0xF3] @ ''rio''"

definition msg_minLength :: "FormField \<Rightarrow> int \<Rightarrow> string" where
  "msg_minLength field n = label field @ '' deve ter pelo menos '' @ toString n @ '' caracteres''"

definition msg_maxLength :: "FormField \<Rightarrow> int \<Rightarrow> string" where
  "msg_maxLength field n =
     label field @ '' deve ter no m'' @ [CHR 0xE1] @ ''ximo '' @ toString n @ '' caracteres''"

definition msg_min :: "FormField \<Rightarrow> int \<Rightarrow> string" where
  "msg_min field n = label field @ '' deve ser pelo menos '' @ toString n"

definition msg_max :: "FormField \<Rightarrow> int \<Rightarrow> string" where
  "msg_max field n = label field @ '' deve ser no m'' @ [CHR 0xE1] @ ''ximo '' @ toString n"

definition msg_pattern :: "FormField \<Rightarrow> string" where
  "msg_pattern field = label field @ '' tem formato inv'' @ [CHR 0xE1] @ ''lido''"

text \<open>
  Each numeric rule is \<open>if (validation.x && typeof value === T && value ? validation.x)
  return message\<close>. The guard \<open>validation.x &&\<close> passes when \<open>x\<close> is declared and
  is not zero. A rule gives \<open>Some message\<close> when it returns and \<open>None\<close> when
  control falls through to the next statement.
\<close>

fun rule_minLength :: "FormField \<Rightarrow> int option \<Rightarrow> jsval \<Rightarrow> string option" where
  "rule_minLength field (Some n) (Str s) =
     (if n \<noteq> 0 \<and> int (length s) < n then Some (msg_minLength field n) else None)"
| "rule_minLength field _ _ = None"

fun rule_maxLength :: "FormField \<Rightarrow> int option \<Rightarrow> jsval \<Rightarrow> string option" where
  "rule_maxLength field (Some n) (Str s) =
     (if n \<noteq> 0 \<and> int (length s) > n then Some (msg_maxLength field n) else None)"
| "rule_maxLength field _ _ = None"

fun rule_min :: "FormField \<Rightarrow> int option \<Rightarrow> jsval \<Rightarrow> string option" where
  "rule_min field (Some n) (Num x) =
     (if n \<noteq> 0 \<and> x < n then Some (msg_min field n) else None)"
| "rule_min field _ _ = None"

fun rule_max :: "FormField \<Rightarrow> int option \<Rightarrow> jsval \<Rightarrow> string option" where
  "rule_max field (Some n) (Num x) =
     (if n \<noteq> 0 \<and> x > n then Some (msg_max field n) else None)"
| "rule_max field _ _ = None"

text \<open>
  The pattern rule: \<open>validation.pattern &&\<close> passes when the pattern is declared and
  not the empty string; \<open>new RegExp\<close> may throw.
\<close>

fun rule_pattern :: "RegExp \<Rightarrow> FormField \<Rightarrow> string option \<Rightarrow> jsval \<Rightarrow> js_error + string option" where
  "rule_pattern rx field (Some p) (Str s) =
     (if p \<noteq> [] then
        (case rx p of
           None \<Rightarrow> Inl SyntaxError
         | Some regex \<Rightarrow> if \<not> regex s then Inr (Some (msg_pattern field)) else Inr None)
      else Inr None)"
| "rule_pattern rx field _ _ = Inr None"

text \<open>The five constraint rules in the order of the source, after \<open>validation\<close> is known to be present.\<close>

definition check_constraints :: "RegExp \<Rightarrow> FormField \<Rightarrow> Validation \<Rightarrow> jsval \<Rightarrow> js_error + string option" where
  "check_constraints rx field va value =
     (case rule_minLength field (minLength va) value of
        Some m \<Rightarrow> Inr (Some m)
      | None \<Rightarrow>
     (case rule_maxLength field (maxLength va) value of
        Some m \<Rightarrow> Inr (Some m)
      | None \<Rightarrow>
     (case rule_min field (min_v va) value of
        Some m \<Rightarrow> Inr (Some m)
      | None \<Rightarrow>
     (case rule_max field (max_v va) value of
        Some m \<Rightarrow> Inr (Some m)
      | None \<Rightarrow> rule_pattern rx field (pattern va) value))))"

definition validateField :: "RegExp \<Rightarrow> FormField \<Rightarrow> jsval \<Rightarrow> js_error + string option" where
  "validateField rx field value =
     (if required field \<and> (\<not> truthy value \<or> blank_string value) then
        Inr (Some (msg_required field))
      else if \<not> truthy value \<and> \<not> required field then Inr None
      else (case validation field of
        None \<Rightarrow> Inr None
      | Some va \<Rightarrow> check_constraints rx field va value))"

subsection \<open>The component state\<close>

text \<open>
  A JavaScript object with string keys is an association list with distinct keys in
  insertion order; \<open>{...prev, [key]: value}\<close> is \<open>AList.update key value prev\<close>
  (an existing key keeps its place, a new one goes to the end; keys that are array
  indices, which JavaScript lists first, are not told apart). A missing property reads as
  \<open>undefined\<close>.
\<close>

type_synonym answers = "(string \<times> jsval) list"
type_synonym error_map = "(string \<times> string) list"

definition get :: "answers \<Rightarrow> string \<Rightarrow> jsval" where
  "get obj k = (case map_of obj k of None \<Rightarrow> Undefined | Some v \<Rightarrow> v)"

text \<open>
  \<open>errors[key]\<close> used as a condition (\<open>if (errors[key])\<close>,
  \<open>errors[field.key] && ...\<close>): a message is shown when the entry is a non-empty
  string.
\<close>

definition has_error :: "error_map \<Rightarrow> string \<Rightarrow> bool" where
  "has_error errs k = (case map_of errs k of None \<Rightarrow> False | Some m \<Rightarrow> m \<noteq> [])"

text \<open>
  The props \<open>schema\<close> and \<open>onSubmit\<close> and the two state hooks. The callback is
  the caller's; the model records the arguments of its calls, oldest first.
\<close>

record engine =
  schema :: FormSchema
  formData :: answers
  errors :: error_map
  onSubmit_calls :: "answers list"

definition mount :: "FormSchema \<Rightarrow> engine" where
  "mount s = \<lparr>schema = s, formData = [], errors = [], onSubmit_calls = []\<rparr>"

definition handleFieldChange :: "string \<Rightarrow> jsval \<Rightarrow> engine \<Rightarrow> engine" where
  "handleFieldChange k v c =
     c\<lparr>formData := AList.update k v (formData c),
       errors := (if has_error (errors c) k then AList.update k [] (errors c) else errors c)\<rparr>"

text \<open>
  The \<open>forEach\<close> of \<open>handleSubmit\<close> over \<open>schema.fields\<close>, threading
  \<open>newErrors\<close> and \<open>hasErrors\<close>; an exception of \<open>validateField\<close> leaves the
  loop.
\<close>

fun validate_fields ::
  "RegExp \<Rightarrow> FormField list \<Rightarrow> answers \<Rightarrow> error_map \<times> bool \<Rightarrow> js_error + error_map \<times> bool" where
  "validate_fields rx [] fd acc = Inr acc"
| "validate_fields rx (field # rest) fd (newErrors, hasErrors) =
     (case validateField rx field (get fd (key field)) of
        Inl e \<Rightarrow> Inl e
      | Inr None \<Rightarrow> validate_fields rx rest fd (newErrors, hasErrors)
      | Inr (Some error) \<Rightarrow>
          if error \<noteq> [] then
            validate_fields rx rest fd (AList.update (key field) error newErrors, True)
          else validate_fields rx rest fd (newErrors, hasErrors))"

definition handleSubmit :: "RegExp \<Rightarrow> engine \<Rightarrow> js_error + engine" where
  "handleSubmit rx c =
     (case validate_fields rx (fields_v (schema c)) (formData c) ([], False) of
        Inl e \<Rightarrow> Inl e
      | Inr (newErrors, hasErrors) \<Rightarrow>
          Inr (c\<lparr>errors := newErrors,
                 onSubmit_calls :=
                   (if \<not> hasErrors then onSubmit_calls c @ [formData c] else onSubmit_calls c)\<rparr>))"

text \<open>
  One render session: the events the rendered form delivers to the component. A handler
  that throws has set no state, so the component is as before.
\<close>

datatype event = FieldChanged string jsval | SubmitAttempted

fun step :: "RegExp \<Rightarrow> engine \<Rightarrow> event \<Rightarrow> engine" where
  "step rx c (FieldChanged k v) = handleFieldChange k v c"
| "step rx c SubmitAttempted = (case handleSubmit rx c of Inl e \<Rightarrow> c | Inr c' \<Rightarrow> c')"

definition run :: "RegExp \<Rightarrow> engine \<Rightarrow> event list \<Rightarrow> engine" where
  "run rx c evs = foldl (step rx) c evs"

subsection \<open>Progress\<close>





subsection \<open>The multi-select control of renderField\<close>

text \<open>\<open>const value = formData[field.key] || ''\<close>\<close>

definition value_of :: "engine \<Rightarrow> FormField \<Rightarrow> jsval" where
  "value_of c field = (if truthy (get (formData c) (key field)) then get (formData c) (key field) else Str [])"

text \<open>\<open>const selectedValues = Array.isArray(value) ? value : []\<close>\<close>

definition selectedValues :: "engine \<Rightarrow> FormField \<Rightarrow> string list" where
  "selectedValues c field = (case value_of c field of Arr xs \<Rightarrow> xs | _ \<Rightarrow> [])"

text \<open>The \<open>checked\<close> prop of the checkbox of one option.\<close>

definition checked :: "engine \<Rightarrow> FormField \<Rightarrow> string \<Rightarrow> bool" where
  "checked c field v = (v \<in> set (selectedValues c field))"

definition onCheckedChange :: "FormField \<Rightarrow> string \<Rightarrow> bool \<Rightarrow> engine \<Rightarrow> engine" where
  "onCheckedChange field v chk c =
     (if chk then handleFieldChange (key field) (Arr (selectedValues c field @ [v])) c
      else handleFieldChange (key field) (Arr (filter (\<lambda>x. x \<noteq> v) (selectedValues c field))) c)"

text \<open>
  Modelled from the spec: the \<open>Checkbox\<close> control (\<open>~/components/ui/checkbox\<close>, not
  among the sources) is a boolean control; toggling it reports the opposite of the
  \<open>checked\<close> prop it was rendered with.
\<close>

definition toggle :: "FormField \<Rightarrow> string \<Rightarrow> engine \<Rightarrow> engine" where
  "toggle field v c = onCheckedChange field v (\<not> checked c field v) c"

subsection \<open>The session effect: heartbeat and inactivity timers\<close>

text \<open>
  One run of the effect that tracks the session, for the \<open>formId\<close>, \<open>responseId\<close>
  and \<open>sessionId\<close> it captured (React runs the effect again, after its cleanup, when
  one of them changes; \<open>trackSession\<close> is what makes \<open>sessionId\<close> change). Time
  is a clock in milliseconds; a pending timer is the time it is due; the writes to the
  store are logged with their time. The awaited store calls complete at once.
  \<open>lastActivityRef\<close> is assigned and never read, and is left out.
\<close>

record tracker =
  now :: nat
  formId :: "string option"
  responseId :: "string option"
  sessionId :: "string option"
  activityInterval :: "nat option"
  inactivityTimeout :: "nat option"
  activity_writes :: "nat list"
  abandoned_writes :: "nat list"

text \<open>
  \<open>!formId\<close>, \<open>!responseId\<close>, \<open>!sessionId\<close> on an optional string: it is given
  when it is present and not empty.
\<close>

fun given :: "string option \<Rightarrow> bool" where
  "given None = False"
| "given (Some s) = (s \<noteq> [])"

text \<open>
  \<open>trackInactivity\<close> clears the pending timeout, if any, and sets a new one five
  minutes from now.
\<close>

definition trackInactivity :: "tracker \<Rightarrow> tracker" where
  "trackInactivity t = t\<lparr>inactivityTimeout := Some (now t + 5 * 60 * 1000)\<rparr>"

text \<open>
  \<open>markAbandoned\<close> writes \<open>abandoned_at\<close> on the response (a failure is caught and
  logged); \<open>updateActivity\<close> returns at once without a session id, and otherwise
  writes \<open>last_active_at\<close> on the session and rearms the inactivity timeout.
\<close>

definition markAbandoned :: "tracker \<Rightarrow> tracker" where
  "markAbandoned t =
     (if \<not> given (responseId t) then t
      else t\<lparr>abandoned_writes := abandoned_writes t @ [now t]\<rparr>)"

definition updateActivity :: "tracker \<Rightarrow> tracker" where
  "updateActivity t =
     (if \<not> given (sessionId t) then t
      else trackInactivity (t\<lparr>activity_writes := activity_writes t @ [now t]\<rparr>))"

text \<open>
  The body of the effect, run at time \<open>t0\<close>: nothing without a form id and a response
  id; otherwise the 30 second interval is set and the inactivity timeout is armed.
\<close>

definition session_effect :: "nat \<Rightarrow> string option \<Rightarrow> string option \<Rightarrow> string option \<Rightarrow> tracker" where
  "session_effect t0 fid rid sid =
     (if \<not> given fid \<or> \<not> given rid then
        \<lparr>now = t0, formId = fid, responseId = rid, sessionId = sid,
         activityInterval = None, inactivityTimeout = None,
         activity_writes = [], abandoned_writes = []\<rparr>
      else
        trackInactivity
          \<lparr>now = t0, formId = fid, responseId = rid, sessionId = sid,
           activityInterval = Some (t0 + 30000), inactivityTimeout = None,
           activity_writes = [], abandoned_writes = []\<rparr>)"

text \<open>
  The two timer callbacks, run when their timer is due: the interval stays set and is
  due again 30 seconds later; a timeout that has fired is no longer pending.
\<close>

definition interval_fires :: "tracker \<Rightarrow> tracker" where
  "interval_fires t =
     (case activityInterval t of
        None \<Rightarrow> t
      | Some d \<Rightarrow> updateActivity (t\<lparr>now := max (now t) d, activityInterval := Some (d + 30000)\<rparr>))"

definition timeout_fires :: "tracker \<Rightarrow> tracker" where
  "timeout_fires t =
     (case inactivityTimeout t of
        None \<Rightarrow> t
      | Some d \<Rightarrow> markAbandoned (t\<lparr>now := max (now t) d, inactivityTimeout := None\<rparr>))"

text \<open>
  The event loop up to time \<open>T\<close>: the pending timer that is due first runs first (the
  interval, set first, on a tie), until none is due by \<open>T\<close>.
\<close>

datatype timer = Interval | Timeout

definition next_timer :: "nat \<Rightarrow> tracker \<Rightarrow> timer option" where
  "next_timer T t =
     (case (activityInterval t, inactivityTimeout t) of
        (Some di, Some dt) \<Rightarrow>
          if di \<le> dt then (if di \<le> T then Some Interval else None)
          else (if dt \<le> T then Some Timeout else None)
      | (Some di, None) \<Rightarrow> if di \<le> T then Some Interval else None
      | (None, Some dt) \<Rightarrow> if dt \<le> T then Some Timeout else None
      | (None, None) \<Rightarrow> None)"

text \<open>The measure of what is left to run by time \<open>T\<close>.\<close>

definition pending_work :: "nat \<Rightarrow> tracker \<Rightarrow> nat" where
  "pending_work T t =
     2 * (case activityInterval t of None \<Rightarrow> 0 | Some d \<Rightarrow> Suc T - d)
       + (case inactivityTimeout t of None \<Rightarrow> 0 | Some d \<Rightarrow> if d \<le> T then 1 else 0)"

function run_until :: "nat \<Rightarrow> tracker \<Rightarrow> tracker" where
  "run_until T t =
     (case next_timer T t of
        Some Interval \<Rightarrow> run_until T (interval_fires t)
      | Some Timeout \<Rightarrow> run_until T (timeout_fires t)
      | None \<Rightarrow> t\<lparr>now := max (now t) T\<rparr>)"
  by pat_completeness auto
termination
proof (relation "measure (\<lambda>(T, t). pending_work T t)")
  show "wf (measure (\<lambda>(T, t). pending_work T t))" by simp
next
  fix T t and x :: timer
  assume "next_timer T t = Some x" and "x = Interval"
  then obtain d where d: "activityInterval t = Some d" "d \<le> T"
    by (auto simp: next_timer_def split: option.splits if_splits)
  then have a: "activityInterval (interval_fires t) = Some (d + 30000)"
    by (simp add: interval_fires_def updateActivity_def trackInactivity_def)
  have "Suc T - (d + 30000) < Suc T - d" using d by arith
  then have "2 * (Suc T - (d + 30000)) + 1 < 2 * (Suc T - d)" by arith
  moreover have "(case inactivityTimeout (interval_fires t) of
      None \<Rightarrow> 0 | Some d \<Rightarrow> if d \<le> T then 1 else 0) \<le> (1::nat)"
    by (simp split: option.splits)
  ultimately have "pending_work T (interval_fires t) < pending_work T t"
    by (simp add: pending_work_def a d(1))
  then show "((T, interval_fires t), (T, t)) \<in> measure (\<lambda>(T, t). pending_work T t)"
    by simp
next
  fix T t and x :: timer
  assume "next_timer T t = Some x" and "x = Timeout"
  then obtain d where d: "inactivityTimeout t = Some d" "d \<le> T"
    by (auto simp: next_timer_def split: option.splits if_splits)
  then have "inactivityTimeout (timeout_fires t) = None"
    and "activityInterval (timeout_fires t) = activityInterval t"
    by (simp_all add: timeout_fires_def markAbandoned_def)
  with d have "pending_work T (timeout_fires t) < pending_work T t"
    by (simp add: pending_work_def)
  then show "((T, timeout_fires t), (T, t)) \<in> measure (\<lambda>(T, t). pending_work T t)"
    by simp
qed

declare run_until.simps [simp del]

subsection \<open>The validation rules as the specification words them\<close>

text \<open>
  The specification's reading of the rules, to compare with \<open>validateField\<close>: a value
  is absent when it is \<open>undefined\<close> or \<open>null\<close>; a constraint is declared when it is
  present in \<open>validation\<close>; \<open>minLength\<close>, \<open>maxLength\<close> and \<open>pattern\<close> apply
  to strings, \<open>min\<close> and \<open>max\<close> to numbers. A pattern that is no regular expression
  matches nothing.
\<close>

definition absent :: "jsval \<Rightarrow> bool" where
  "absent v = (v = Undefined \<or> v = Null)"

fun spec_too_short :: "Validation \<Rightarrow> jsval \<Rightarrow> bool" where
  "spec_too_short va (Str s) = (case minLength va of Some n \<Rightarrow> int (length s) < n | None \<Rightarrow> False)"
| "spec_too_short va _ = False"

fun spec_too_long :: "Validation \<Rightarrow> jsval \<Rightarrow> bool" where
  "spec_too_long va (Str s) = (case maxLength va of Some n \<Rightarrow> int (length s) > n | None \<Rightarrow> False)"
| "spec_too_long va _ = False"

fun spec_below_min :: "Validation \<Rightarrow> jsval \<Rightarrow> bool" where
  "spec_below_min va (Num x) = (case min_v va of Some n \<Rightarrow> x < n | None \<Rightarrow> False)"
| "spec_below_min va _ = False"

fun spec_above_max :: "Validation \<Rightarrow> jsval \<Rightarrow> bool" where
  "spec_above_max va (Num x) = (case max_v va of Some n \<Rightarrow> x > n | None \<Rightarrow> False)"
| "spec_above_max va _ = False"

fun spec_mismatch :: "RegExp \<Rightarrow> Validation \<Rightarrow> jsval \<Rightarrow> bool" where
  "spec_mismatch rx va (Str s) =
     (case pattern va of
        Some p \<Rightarrow> (case rx p of Some regex \<Rightarrow> \<not> regex s | None \<Rightarrow> True)
      | None \<Rightarrow> False)"
| "spec_mismatch rx va _ = False"

definition violates :: "RegExp \<Rightarrow> FormField \<Rightarrow> jsval \<Rightarrow> bool" where
  "violates rx field v =
     (case validation field of
        None \<Rightarrow> False
      | Some va \<Rightarrow> spec_too_short va v \<or> spec_too_long va v \<or> spec_below_min va v
                   \<or> spec_above_max va v \<or> spec_mismatch rx va v)"

subsection \<open>Submitting, as the specification words it\<close>




subsection \<open>Progress, as the specification words it\<close>




subsection \<open>Sample schemas\<close>

definition va_age :: Validation where
  "va_age = \<lparr>min_v = Some 0, max_v = None, pattern = None, minLength = None, maxLength = None\<rparr>"

definition f_age :: FormField where
  "f_age = \<lparr>key = ''age'', type_v = Number, label = ''Idade'', placeholder = None,
     required = False, validation = Some va_age, options = None, description = None\<rparr>"

definition va_note :: Validation where
  "va_note = \<lparr>min_v = None, max_v = None, pattern = None, minLength = None, maxLength = Some 0\<rparr>"

definition f_note :: FormField where
  "f_note = \<lparr>key = ''note'', type_v = Text, label = ''Nota'', placeholder = None,
     required = False, validation = Some va_note, options = None, description = None\<rparr>"

definition f_terms :: FormField where
  "f_terms = \<lparr>key = ''terms'', type_v = Checkbox, label = ''Termos'', placeholder = None,
     required = True, validation = None, options = None, description = None\<rparr>"

definition f_email :: FormField where
  "f_email = \<lparr>key = ''email'', type_v = Email, label = ''Email'', placeholder = None,
     required = True, validation = None, options = None, description = None\<rparr>"

definition f_zip :: FormField where
  "f_zip = \<lparr>key = ''zip'', type_v = Text, label = ''CEP'', placeholder = None,
     required = False,
     validation = Some \<lparr>min_v = Some 1, max_v = Some 9, pattern = Some five_digits,
                         minLength = Some 5, maxLength = Some 5\<rparr>,
     options = None, description = None\<rparr>"

definition c_typing :: engine where
  "c_typing = \<lparr>schema = \<lparr>title = ''Contato'', schema_description = [], fields_v = [f_email, f_zip],
                  settings = \<lparr>allowAnonymous = True, showProgress = True, submitText = ''Enviar''\<rparr>\<rparr>,
                formData = [(''zip'', Str ''123'')],
                errors = [(''email'', msg_required f_email), (''zip'', msg_pattern f_zip)],
                onSubmit_calls = []\<rparr>"

definition settings_default :: Settings where
  "settings_default = \<lparr>allowAnonymous = True, showProgress = True, submitText = ''Enviar''\<rparr>"

definition s_email :: FormSchema where
  "s_email = \<lparr>title = ''Contato'', schema_description = [], fields_v = [f_email],
               settings = settings_default\<rparr>"




definition f_tags :: FormField where
  "f_tags = \<lparr>key = ''tags'', type_v = Multiselect, label = ''Tags'', placeholder = None,
     required = False, validation = None,
     options = Some [(''a'', ''A''), (''b'', ''B'')], description = None\<rparr>"

definition s_tags :: FormSchema where
  "s_tags = \<lparr>title = ''Tags'', schema_description = [], fields_v = [f_tags],
              settings = settings_default\<rparr>"

section \<open>Properties\<close>

subsection \<open>Helper lemmas\<close>

lemma check_constraints_ok:
  "\<not> spec_too_short va v \<Longrightarrow> \<not> spec_too_long va v \<Longrightarrow> \<not> spec_below_min va v \<Longrightarrow>
   \<not> spec_above_max va v \<Longrightarrow> \<not> spec_mismatch rx va v \<Longrightarrow>
   check_constraints rx field va v = Inr None"
  by (cases v; cases "minLength va"; cases "maxLength va"; cases "min_v va"; cases "max_v va";
      cases "pattern va")
     (auto simp: check_constraints_def split: option.splits)

lemma step_schema: "schema (step rx c ev) = schema c"
  by (cases ev) (auto simp: handleFieldChange_def handleSubmit_def split: sum.splits prod.splits)

lemma digits_nonempty: "digits n \<noteq> []"
  by (subst digits.simps) simp


















lemma selectedValues_change:
  "selectedValues (handleFieldChange (key field) (Arr xs) c) field = xs"
  by (simp add: selectedValues_def value_of_def handleFieldChange_def get_def update_conv')

lemma no_session_run:
  assumes "\<not> given (sessionId t)" and "given (responseId t)"
  shows "abandoned_writes (run_until T t) =
           abandoned_writes t @
             (case inactivityTimeout t of
                Some d \<Rightarrow> if d \<le> T then [max (now t) d] else []
              | None \<Rightarrow> [])
       \<and> inactivityTimeout (run_until T t) =
           (case inactivityTimeout t of Some d \<Rightarrow> if d \<le> T then None else Some d | None \<Rightarrow> None)
       \<and> activity_writes (run_until T t) = activity_writes t"
  using assms
proof (induction T t rule: run_until.induct)
  case (1 T t)
  show ?case
  proof (cases "next_timer T t")
    case None
    then show ?thesis
      by (subst (1 2 3) run_until.simps)
         (auto simp: next_timer_def split: option.splits if_splits)
  next
    case (Some tm)
    show ?thesis
    proof (cases tm)
      case Interval
      with Some obtain di where di: "activityInterval t = Some di" "di \<le> T"
        and first: "\<And>dt. inactivityTimeout t = Some dt \<Longrightarrow> di \<le> dt"
        by (auto simp: next_timer_def split: option.splits if_splits)
      have t': "interval_fires t = t\<lparr>now := max (now t) di, activityInterval := Some (di + 30000)\<rparr>"
        using di "1.prems" by (simp add: interval_fires_def updateActivity_def)
      have ih: "abandoned_writes (run_until T (interval_fires t)) =
           abandoned_writes (interval_fires t) @
             (case inactivityTimeout (interval_fires t) of
                Some d \<Rightarrow> if d \<le> T then [max (now (interval_fires t)) d] else []
              | None \<Rightarrow> [])
       \<and> inactivityTimeout (run_until T (interval_fires t)) =
           (case inactivityTimeout (interval_fires t) of Some d \<Rightarrow> if d \<le> T then None else Some d | None \<Rightarrow> None)
       \<and> activity_writes (run_until T (interval_fires t)) = activity_writes (interval_fires t)"
        using "1.IH"(1) [OF Some Interval] "1.prems" by (simp add: t')
      have r: "run_until T t = run_until T (interval_fires t)"
        using Some Interval by (subst run_until.simps) simp
      show ?thesis
        unfolding r using ih first by (auto simp: t' split: option.splits)
    next
      case Timeout
      with Some obtain dt where dt: "inactivityTimeout t = Some dt" "dt \<le> T"
        by (auto simp: next_timer_def split: option.splits if_splits)
      have t': "timeout_fires t =
          t\<lparr>now := max (now t) dt, inactivityTimeout := None,
            abandoned_writes := abandoned_writes t @ [max (now t) dt]\<rparr>"
        using dt "1.prems" by (simp add: timeout_fires_def markAbandoned_def)
      have ih: "abandoned_writes (run_until T (timeout_fires t)) = abandoned_writes (timeout_fires t)
       \<and> inactivityTimeout (run_until T (timeout_fires t)) = None
       \<and> activity_writes (run_until T (timeout_fires t)) = activity_writes (timeout_fires t)"
        using "1.IH"(2) [OF Some Timeout] "1.prems" by (simp add: t')
      have r: "run_until T t = run_until T (timeout_fires t)"
        using Some Timeout by (subst run_until.simps) simp
      show ?thesis
        unfolding r using ih dt by (simp add: t')
    qed
  qed
qed

lemma session_run:
  assumes "given (sessionId t)" and "activityInterval t = Some di" and "inactivityTimeout t = Some dt"
    and "di \<le> dt"
  shows "abandoned_writes (run_until T t) = abandoned_writes t
       \<and> (\<exists>d. inactivityTimeout (run_until T t) = Some d \<and> T < d)"
  using assms
proof (induction T t arbitrary: di dt rule: run_until.induct)
  case (1 T t)
  show ?case
  proof (cases "di \<le> T")
    case False
    with "1.prems" have "next_timer T t = None" by (simp add: next_timer_def)
    with False "1.prems" show ?thesis by (subst (1 2) run_until.simps) simp
  next
    case True
    with "1.prems" have n: "next_timer T t = Some Interval" by (simp add: next_timer_def)
    have t': "interval_fires t =
        t\<lparr>now := max (now t) di, activityInterval := Some (di + 30000),
          activity_writes := activity_writes t @ [max (now t) di],
          inactivityTimeout := Some (max (now t) di + 300000)\<rparr>"
      using "1.prems" by (simp add: interval_fires_def updateActivity_def trackInactivity_def)
    have "abandoned_writes (run_until T (interval_fires t)) = abandoned_writes (interval_fires t)
       \<and> (\<exists>d. inactivityTimeout (run_until T (interval_fires t)) = Some d \<and> T < d)"
      using "1.prems"(1)
      by (intro "1.IH"(1) [OF n refl, of "di + 30000" "max (now t) di + 300000"]) (simp_all add: t')
    moreover have "run_until T t = run_until T (interval_fires t)"
      using n by (subst run_until.simps) simp
    ultimately show ?thesis by (simp add: t')
  qed
qed

subsection \<open>Validation of one field\<close>

text \<open>
  C2 (the code at the failing inputs). The field \<open>f_age\<close> declares \<open>min = 0\<close> and
  the number \<open>-1\<close> is strictly below it, yet \<open>validateField\<close> returns no error:
  the guard \<open>validation.min &&\<close> reads the declared bound \<open>0\<close> as no bound. In the
  same way the field \<open>f_note\<close> declares \<open>maxLength = 0\<close> and the string \<open>a\<close> is
  longer, yet no error is returned.
\<close>

theorem validateField_min_zero_not_enforced:
  "min_v va_age = Some 0 \<and> validation f_age = Some va_age \<and> spec_below_min va_age (Num (- 1))
   \<and> validateField sample_RegExp f_age (Num (- 1)) = Inr None
   \<and> maxLength va_note = Some 0 \<and> validation f_note = Some va_note
   \<and> spec_too_long va_note (Str ''a'')
   \<and> validateField sample_RegExp f_note (Str ''a'') = Inr None"
  by (simp add: va_age_def f_age_def va_note_def f_note_def validateField_def check_constraints_def)

theorem validateField_min_zero_not_enforced_witness:
  "spec_below_min va_age (Num (- 1)) \<and> validateField sample_RegExp f_age (Num (- 1)) = Inr None
   \<and> validateField sample_RegExp f_age (Num (- 1)) \<noteq> Inr (Some (msg_min f_age 0))
   \<and> validateField sample_RegExp f_note (Str ''a'') \<noteq> Inr (Some (msg_maxLength f_note 0))"
  using validateField_min_zero_not_enforced by simp

text \<open>
  C3, as stated, fails: the required field \<open>f_terms\<close> declares no constraint and the
  value \<open>false\<close> is neither absent nor a blank string, but validating it yields the
  required error.
\<close>

theorem required_nonempty_counterexample:
  "required f_terms \<and> \<not> absent (Bool False) \<and> \<not> blank_string (Bool False)
   \<and> \<not> violates sample_RegExp f_terms (Bool False)
   \<and> validateField sample_RegExp f_terms (Bool False) = Inr (Some (msg_required f_terms))"
  by (simp add: f_terms_def absent_def violates_def validateField_def)

text \<open>
  C3, amended. For a required field: a value that is absent, \<open>false\<close>, or a string that
  is empty or only white space yields the required error, which starts with the field's
  label; a truthy value that is not a blank string and violates no declared constraint
  yields no error.
\<close>

theorem required_validation:
  assumes "required field"
  shows "(absent v \<or> v = Bool False \<or> blank_string v \<longrightarrow>
            validateField rx field v =
              Inr (Some (label field @ '' '' @ [CHR 0xE9] @ '' obrigat'' @ [CHR 0xF3] @ ''rio'')))
       \<and> (truthy v \<and> \<not> blank_string v \<and> \<not> violates rx field v \<longrightarrow>
            validateField rx field v = Inr None)"
proof (intro conjI impI)
  assume "absent v \<or> v = Bool False \<or> blank_string v"
  then have "\<not> truthy v \<or> blank_string v"
    by (auto simp: absent_def)
  with assms show "validateField rx field v =
      Inr (Some (label field @ '' '' @ [CHR 0xE9] @ '' obrigat'' @ [CHR 0xF3] @ ''rio''))"
    by (simp add: validateField_def msg_required_def)
next
  assume a: "truthy v \<and> \<not> blank_string v \<and> \<not> violates rx field v"
  show "validateField rx field v = Inr None"
  proof (cases "validation field")
    case None
    with a show ?thesis by (simp add: validateField_def)
  next
    case (Some va)
    with a have "check_constraints rx field va v = Inr None"
      by (intro check_constraints_ok) (simp_all add: violates_def)
    with a Some show ?thesis by (simp add: validateField_def)
  qed
qed

theorem required_validation_witness:
  "required f_email
   \<and> validateField sample_RegExp f_email (Str ''  '') =
       Inr (Some (''Email '' @ [CHR 0xE9] @ '' obrigat'' @ [CHR 0xF3] @ ''rio''))
   \<and> validateField sample_RegExp f_email (Str ''a@b.com'') = Inr None"
  using required_validation [where field = f_email and v = "Str ''  ''" and rx = sample_RegExp]
    required_validation [where field = f_email and v = "Str ''a@b.com''" and rx = sample_RegExp]
  by (simp add: f_email_def absent_def violates_def trim_def is_space_def)

text \<open>
  C7. For an optional field, an absent value (\<open>undefined\<close> or \<open>null\<close>) yields no
  error, whatever constraints the field declares: no constraint rule is evaluated, so
  the result does not depend on \<open>validation\<close> or on the regular expression engine.
\<close>

theorem validateField_optional_absent:
  "\<not> required field \<Longrightarrow> v = Undefined \<or> v = Null \<Longrightarrow> validateField rx field v = Inr None"
  by (auto simp: validateField_def)

theorem validateField_optional_absent_witness:
  "\<not> required f_zip \<and> validation f_zip \<noteq> None
   \<and> validateField sample_RegExp f_zip Undefined = Inr None
   \<and> validateField sample_RegExp f_zip Null = Inr None"
  using validateField_optional_absent [where field = f_zip and v = Undefined and rx = sample_RegExp]
    validateField_optional_absent [where field = f_zip and v = Null and rx = sample_RegExp]
  by (simp add: f_zip_def)

subsection \<open>Changing a value\<close>

text \<open>
  C6. \<open>handleFieldChange key value\<close> stores the value under the key in \<open>formData\<close>;
  afterwards \<open>errors\<close> holds no message for the key (its entry is missing or the
  empty string), whether or not it held one before and whatever the new value is; the
  entries of every other key in \<open>formData\<close> and in \<open>errors\<close> are as before.
\<close>

theorem handleFieldChange_frame:
  "map_of (formData (handleFieldChange k v c)) k = Some v
   \<and> \<not> has_error (errors (handleFieldChange k v c)) k
   \<and> (map_of (errors (handleFieldChange k v c)) k = None
        \<or> map_of (errors (handleFieldChange k v c)) k = Some [])
   \<and> (\<forall>k'. k' \<noteq> k \<longrightarrow>
         map_of (formData (handleFieldChange k v c)) k' = map_of (formData c) k'
       \<and> map_of (errors (handleFieldChange k v c)) k' = map_of (errors c) k')"
  by (auto simp: handleFieldChange_def has_error_def update_conv' split: option.splits)

theorem handleFieldChange_frame_witness:
  "has_error (errors c_typing) ''zip''
   \<and> map_of (formData (handleFieldChange ''zip'' (Str ''12'') c_typing)) ''zip'' = Some (Str ''12'')
   \<and> \<not> has_error (errors (handleFieldChange ''zip'' (Str ''12'') c_typing)) ''zip''
   \<and> map_of (errors (handleFieldChange ''zip'' (Str ''12'') c_typing)) ''email''
       = map_of (errors c_typing) ''email''
   \<and> map_of (formData (handleFieldChange ''zip'' (Str ''12'') c_typing)) ''email''
       = map_of (formData c_typing) ''email''"
  using handleFieldChange_frame [where k = "''zip''" and v = "Str ''12''" and c = c_typing]
  by (simp add: c_typing_def has_error_def msg_pattern_def)

subsection \<open>Submitting\<close>



text \<open>
  C10. A submit attempt leaves \<open>formData\<close> as it was, whether validation passes,
  fails or throws; when the handler completes, the new \<open>errors\<close> is computed from the
  schema and the answers alone: it does not depend on the previous \<open>errors\<close>.
\<close>

theorem submit_keeps_answers:
  "formData (step rx c SubmitAttempted) = formData c
   \<and> (\<forall>c'. handleSubmit rx c = Inr c' \<longrightarrow>
        formData c' = formData c
      \<and> (\<forall>e. \<exists>c''. handleSubmit rx (c\<lparr>errors := e\<rparr>) = Inr c'' \<and> errors c'' = errors c'))"
  by (auto simp: handleSubmit_def split: sum.splits prod.splits)

theorem submit_keeps_answers_witness:
  "handleSubmit sample_RegExp c_typing =
     Inr (c_typing\<lparr>errors := [(''email'', msg_required f_email), (''zip'', msg_minLength f_zip 5)]\<rparr>)
   \<and> formData (step sample_RegExp c_typing SubmitAttempted) = [(''zip'', Str ''123'')]
   \<and> handleSubmit sample_RegExp (c_typing\<lparr>errors := []\<rparr>) =
     Inr (c_typing\<lparr>errors := [(''email'', msg_required f_email), (''zip'', msg_minLength f_zip 5)]\<rparr>)"
  using submit_keeps_answers [of sample_RegExp c_typing]
  by (simp add: c_typing_def handleSubmit_def f_email_def f_zip_def validateField_def get_def
      check_constraints_def msg_required_def msg_minLength_def)

subsection \<open>The schema\<close>

text \<open>
  C9. No sequence of field changes and submit attempts changes the schema: after every
  run of events the component holds the schema it was given.
\<close>

theorem schema_never_mutated:
  "schema (run rx c evs) = schema c"
  unfolding run_def
  by (induction evs arbitrary: c) (simp_all add: step_schema)

theorem schema_never_mutated_witness:
  "schema (run sample_RegExp (mount s_email)
     [SubmitAttempted, FieldChanged ''email'' (Str ''a@b.com''), SubmitAttempted]) = s_email
   \<and> onSubmit_calls (run sample_RegExp (mount s_email)
     [SubmitAttempted, FieldChanged ''email'' (Str ''a@b.com''), SubmitAttempted])
       = [[(''email'', Str ''a@b.com'')]]"
  using schema_never_mutated [of sample_RegExp "mount s_email"
     "[SubmitAttempted, FieldChanged ''email'' (Str ''a@b.com''), SubmitAttempted]"]
  by (simp add: run_def mount_def s_email_def f_email_def handleSubmit_def handleFieldChange_def
      validateField_def get_def has_error_def trim_def is_space_def msg_required_def)

subsection \<open>Progress\<close>



subsection \<open>Multi-select\<close>

text \<open>
  C5. For a multi-select field, the checkbox handler called with \<open>true\<close> stores the
  selected values with the option's value appended at the end, and called with
  \<open>false\<close> stores them with that value removed. Toggling an option therefore
  removes it when it is selected and appends it when it is not, leaves the other values
  and their order as they were, and keeps a sequence without duplicates free of
  duplicates, over any number of toggles. For example, from no value, toggling a, then b,
  then a gives the value [b].
\<close>

theorem multiselect_toggle:
  "map_of (formData (onCheckedChange field v True c)) (key field)
      = Some (Arr (selectedValues c field @ [v]))
   \<and> map_of (formData (onCheckedChange field v False c)) (key field)
      = Some (Arr (filter (\<lambda>x. x \<noteq> v) (selectedValues c field)))
   \<and> selectedValues (toggle field v c) field =
       (if v \<in> set (selectedValues c field) then filter (\<lambda>x. x \<noteq> v) (selectedValues c field)
        else selectedValues c field @ [v])
   \<and> filter (\<lambda>x. x \<noteq> v) (selectedValues (toggle field v c) field)
       = filter (\<lambda>x. x \<noteq> v) (selectedValues c field)
   \<and> (distinct (selectedValues c field) \<longrightarrow> distinct (selectedValues (fold (toggle field) vs c) field))"
proof -
  have t: "selectedValues (toggle field w d) field =
       (if w \<in> set (selectedValues d field) then filter (\<lambda>x. x \<noteq> w) (selectedValues d field)
        else selectedValues d field @ [w])" for w d
    by (simp add: toggle_def onCheckedChange_def checked_def selectedValues_change)
  have d: "distinct (selectedValues d field) \<Longrightarrow> distinct (selectedValues (toggle field w d) field)" for w d
    by (simp add: t)
  have "distinct (selectedValues c field) \<Longrightarrow> distinct (selectedValues (fold (toggle field) vs c) field)"
    by (induction vs arbitrary: c) (simp_all add: d)
  then show ?thesis
    using t [of v c]
    by (simp add: onCheckedChange_def handleFieldChange_def update_conv')
qed

theorem multiselect_toggle_witness:
  "distinct (selectedValues (mount s_tags) f_tags)
   \<and> formData (toggle f_tags ''a'' (toggle f_tags ''b'' (toggle f_tags ''a'' (mount s_tags))))
       = [(''tags'', Arr [''b''])]
   \<and> selectedValues (fold (toggle f_tags) [''a'', ''b'', ''a''] (mount s_tags)) f_tags = [''b'']
   \<and> distinct (selectedValues (fold (toggle f_tags) [''a'', ''b'', ''a''] (mount s_tags)) f_tags)"
  using multiselect_toggle [of f_tags "''a''" "mount s_tags" "[''a'', ''b'', ''a'']"]
  by (simp add: toggle_def onCheckedChange_def checked_def selectedValues_def value_of_def
      handleFieldChange_def has_error_def get_def mount_def f_tags_def)

subsection \<open>Heartbeat and inactivity\<close>

text \<open>
  C8, as stated, fails for the heartbeat: with a form id and a response id but no session
  id, the interval fires at 30 seconds, before the five minutes are over, yet the
  inactivity timeout is still due at 300000 and the abandoned mark is written then.
\<close>

theorem heartbeat_without_session_counterexample:
  "now (interval_fires (session_effect 0 (Some ''f'') (Some ''r'') None)) = 30000
   \<and> inactivityTimeout (session_effect 0 (Some ''f'') (Some ''r'') None) = Some 300000
   \<and> inactivityTimeout (interval_fires (session_effect 0 (Some ''f'') (Some ''r'') None)) = Some 300000
   \<and> abandoned_writes
        (run_until 300000 (interval_fires (session_effect 0 (Some ''f'') (Some ''r'') None)))
       = [300000]"
  using no_session_run [of "interval_fires (session_effect 0 (Some ''f'') (Some ''r'') None)" 300000]
  by (simp add: session_effect_def interval_fires_def updateActivity_def trackInactivity_def)

text \<open>
  C8, amended. For an effect run at \<open>t0\<close> with a form id and a response id. Without a
  session id no activity update occurs, and the abandoned mark is written exactly once,
  at \<open>t0\<close> plus five minutes, however long the component stays mounted, after which
  no timeout is pending. With a session id no abandoned mark is written and the timeout
  is pending, due later than any time run to. A heartbeat with a session id leaves the
  timeout due five minutes after it and writes no mark; a timeout that fires is not
  pending afterwards.
\<close>

theorem inactivity_timer:
  assumes "given fid" and "given rid"
  shows "(\<not> given sid \<longrightarrow>
            activity_writes (run_until T (session_effect t0 fid rid sid)) = []
          \<and> abandoned_writes (run_until T (session_effect t0 fid rid sid)) =
              (if t0 + 300000 \<le> T then [t0 + 300000] else [])
          \<and> inactivityTimeout (run_until T (session_effect t0 fid rid sid)) =
              (if t0 + 300000 \<le> T then None else Some (t0 + 300000)))
       \<and> (given sid \<longrightarrow>
            abandoned_writes (run_until T (session_effect t0 fid rid sid)) = []
          \<and> (\<exists>d. inactivityTimeout (run_until T (session_effect t0 fid rid sid)) = Some d \<and> T < d))
       \<and> (given (sessionId t) \<longrightarrow>
            inactivityTimeout (interval_fires (t\<lparr>activityInterval := Some d\<rparr>))
              = Some (max (now t) d + 300000)
          \<and> abandoned_writes (interval_fires (t\<lparr>activityInterval := Some d\<rparr>)) = abandoned_writes t)
       \<and> inactivityTimeout (timeout_fires t) = None"
proof (intro conjI impI)
  let ?e = "session_effect t0 fid rid sid"
  have e: "?e = \<lparr>now = t0, formId = fid, responseId = rid, sessionId = sid,
           activityInterval = Some (t0 + 30000), inactivityTimeout = Some (t0 + 300000),
           activity_writes = [], abandoned_writes = []\<rparr>"
    using assms by (simp add: session_effect_def trackInactivity_def)
  {
    assume n: "\<not> given sid"
    have r: "abandoned_writes (run_until T ?e) =
           abandoned_writes ?e @
             (case inactivityTimeout ?e of
                Some d \<Rightarrow> if d \<le> T then [max (now ?e) d] else []
              | None \<Rightarrow> [])
       \<and> inactivityTimeout (run_until T ?e) =
           (case inactivityTimeout ?e of Some d \<Rightarrow> if d \<le> T then None else Some d | None \<Rightarrow> None)
       \<and> activity_writes (run_until T ?e) = activity_writes ?e"
      using n assms by (intro no_session_run) (simp_all add: e)
    from r show "activity_writes (run_until T ?e) = []" by (simp add: e)
    from r show "abandoned_writes (run_until T ?e) = (if t0 + 300000 \<le> T then [t0 + 300000] else [])"
      by (simp add: e)
    from r show "inactivityTimeout (run_until T ?e) = (if t0 + 300000 \<le> T then None else Some (t0 + 300000))"
      by (simp add: e)
  }
  {
    assume g: "given sid"
    have r: "abandoned_writes (run_until T ?e) = abandoned_writes ?e
       \<and> (\<exists>d. inactivityTimeout (run_until T ?e) = Some d \<and> T < d)"
      using g by (intro session_run [where di = "t0 + 30000" and dt = "t0 + 300000"]) (simp_all add: e)
    from r show "abandoned_writes (run_until T ?e) = []" by (simp add: e)
    from r show "\<exists>d. inactivityTimeout (run_until T ?e) = Some d \<and> T < d" by simp
  }
  {
    assume "given (sessionId t)"
    then show "inactivityTimeout (interval_fires (t\<lparr>activityInterval := Some d\<rparr>))
              = Some (max (now t) d + 300000)"
      and "abandoned_writes (interval_fires (t\<lparr>activityInterval := Some d\<rparr>)) = abandoned_writes t"
      by (simp_all add: interval_fires_def updateActivity_def trackInactivity_def)
  }
  show "inactivityTimeout (timeout_fires t) = None"
    by (simp add: timeout_fires_def markAbandoned_def split: option.splits)
qed

theorem inactivity_timer_witness:
  "given (Some ''f'') \<and> given (Some ''r'')
   \<and> activity_writes (run_until 900000 (session_effect 0 (Some ''f'') (Some ''r'') None)) = []
   \<and> abandoned_writes (run_until 900000 (session_effect 0 (Some ''f'') (Some ''r'') None)) = [300000]
   \<and> inactivityTimeout (run_until 900000 (session_effect 0 (Some ''f'') (Some ''r'') None)) = None
   \<and> abandoned_writes (run_until 299999 (session_effect 0 (Some ''f'') (Some ''r'') None)) = []
   \<and> abandoned_writes (run_until 900000 (session_effect 0 (Some ''f'') (Some ''r'') (Some ''s''))) = []
   \<and> inactivityTimeout (run_until 900000 (session_effect 0 (Some ''f'') (Some ''r'') (Some ''s''))) \<noteq> None"
  using inactivity_timer [of "Some ''f''" "Some ''r''" None 900000 0]
    inactivity_timer [of "Some ''f''" "Some ''r''" None 299999 0]
    inactivity_timer [of "Some ''f''" "Some ''r''" "Some ''s''" 900000 0]
  by auto

end
